theory Spec2Isabelle
  imports Complex_Main "HOL-Library.Sublist"
begin

section \<open>Python strings\<close>

text \<open>
  A Python \<open>str\<close> is modelled as a \<open>string\<close>; one \<open>char\<close> stands for one code
  point below 256. The methods below are the ones \<open>app.py\<close> calls, restricted to
  that range: \<open>str.lower\<close>, \<open>str.strip\<close> (no argument), \<open>str.split(sep)\<close>,
  \<open>str.replace(old, new)\<close> and \<open>str.startswith\<close>.
\<close>

definition upper_chars :: string where
  "upper_chars = ''ABCDEFGHIJKLMNOPQRSTUVWXYZ'' @
     [CHR 0xC0, CHR 0xC1, CHR 0xC2, CHR 0xC3, CHR 0xC4, CHR 0xC5, CHR 0xC6, CHR 0xC7,
      CHR 0xC8, CHR 0xC9, CHR 0xCA, CHR 0xCB, CHR 0xCC, CHR 0xCD, CHR 0xCE, CHR 0xCF,
      CHR 0xD0, CHR 0xD1, CHR 0xD2, CHR 0xD3, CHR 0xD4, CHR 0xD5, CHR 0xD6,
      CHR 0xD8, CHR 0xD9, CHR 0xDA, CHR 0xDB, CHR 0xDC, CHR 0xDD, CHR 0xDE]"

definition lower_chars :: string where
  "lower_chars = ''abcdefghijklmnopqrstuvwxyz'' @
     [CHR 0xE0, CHR 0xE1, CHR 0xE2, CHR 0xE3, CHR 0xE4, CHR 0xE5, CHR 0xE6, CHR 0xE7,
      CHR 0xE8, CHR 0xE9, CHR 0xEA, CHR 0xEB, CHR 0xEC, CHR 0xED, CHR 0xEE, CHR 0xEF,
      CHR 0xF0, CHR 0xF1, CHR 0xF2, CHR 0xF3, CHR 0xF4, CHR 0xF5, CHR 0xF6,
      CHR 0xF8, CHR 0xF9, CHR 0xFA, CHR 0xFB, CHR 0xFC, CHR 0xFD, CHR 0xFE]"

definition lower_char :: "char \<Rightarrow> char" where
  "lower_char c = (case map_of (zip upper_chars lower_chars) c of Some l \<Rightarrow> l | None \<Rightarrow> c)"

definition lower :: "string \<Rightarrow> string" where
  "lower s = map lower_char s"

text \<open>The code points below 256 that \<open>str.isspace\<close> accepts.\<close>

definition is_space :: "char \<Rightarrow> bool" where
  "is_space c = (c \<in> set [CHR 0x09, CHR 0x0A, CHR 0x0B, CHR 0x0C, CHR 0x0D,
                           CHR 0x1C, CHR 0x1D, CHR 0x1E, CHR 0x1F, CHR 0x20,
                           CHR 0x85, CHR 0xA0])"

definition strip :: "string \<Rightarrow> string" where
  "strip s = rev (dropWhile is_space (rev (dropWhile is_space s)))"

text \<open>\<open>s.split(sep)\<close> for a one-character separator: never the empty list.\<close>

fun split :: "char \<Rightarrow> string \<Rightarrow> string list" where
  "split sep [] = [[]]"
| "split sep (c # cs) =
     (if c = sep then [] # split sep cs
      else (case split sep cs of [] \<Rightarrow> [[c]] | w # ws \<Rightarrow> (c # w) # ws))"

text \<open>
  \<open>s.replace(old, new)\<close> for a non-empty \<open>old\<close>: every non-overlapping occurrence,
  scanning from the left. (The only call in the source passes a 13-character
  literal; Python's special treatment of the empty pattern is not modelled.)
\<close>

fun replace :: "string \<Rightarrow> string \<Rightarrow> string \<Rightarrow> string" where
  "replace old new [] = []"
| "replace old new (c # cs) =
     (if old \<noteq> [] \<and> prefix old (c # cs)
      then new @ replace old new (drop (length old - 1) cs)
      else c # replace old new cs)"

definition startswith :: "string \<Rightarrow> string \<Rightarrow> bool" where
  "startswith s p = prefix p s"

section \<open>Python exceptions, indexing, dictionaries\<close>

text \<open>
  The exceptions the two scripts can meet. \<open>ConnectionError\<close> and \<open>Timeout\<close> are
  what \<open>requests.post\<close> raises itself; \<open>HTTPError\<close> is raised by
  \<open>raise_for_status\<close> for the status it carries and \<open>JSONDecodeError\<close> by
  \<open>response.json()\<close>. All of them are subclasses of \<open>Exception\<close>.
\<close>

datatype key = StrKey string | IntKey int

datatype exn =
    KeyError key
  | IndexError
  | TypeError
  | AttributeError
  | ConnectionError
  | Timeout
  | HTTPError nat
  | JSONDecodeError

text \<open>
  The subscript \<open>xs[i]\<close> of a list: positions \<open>0\<close> to \<open>len(xs) - 1\<close>, the same
  elements again at \<open>-len(xs)\<close> to \<open>-1\<close>, and \<open>IndexError\<close> elsewhere.
\<close>

definition py_index :: "'a list \<Rightarrow> int \<Rightarrow> exn + 'a" where
  "py_index xs i =
     (if 0 \<le> i \<and> i < int (length xs) then Inr (xs ! nat i)
      else if i < 0 \<and> - int (length xs) \<le> i then Inr (xs ! nat (int (length xs) + i))
      else Inl IndexError)"

section \<open>ingest.py: flattening the knowledge base\<close>

text \<open>
  A knowledge record is a JSON object; its values are taken to be strings (an
  f-string renders any other value through \<open>str\<close>, which is not modelled).
\<close>

type_synonym item = "string \<rightharpoonup> string"

text \<open>\<open>item[k]\<close> raises \<open>KeyError\<close> on a missing key; \<open>item.get(k, d)\<close> returns \<open>d\<close>.\<close>

definition subscript :: "item \<Rightarrow> string \<Rightarrow> exn + string" where
  "subscript item k = (case item k of None \<Rightarrow> Inl (KeyError (StrKey k)) | Some v \<Rightarrow> Inr v)"

definition get_default :: "item \<Rightarrow> string \<Rightarrow> string \<Rightarrow> string" where
  "get_default item k d = (case item k of None \<Rightarrow> d | Some v \<Rightarrow> v)"

definition topic_template :: "string \<Rightarrow> string \<Rightarrow> string" where
  "topic_template topic content = ''Topic: '' @ topic @ ''. Explanation: '' @ content"

definition letter_template :: "string \<Rightarrow> string \<Rightarrow> string \<Rightarrow> string \<Rightarrow> string \<Rightarrow> string" where
  "letter_template name character info latin_example jawi_example =
     ''Letter name: '' @ name @ ''. '' @
     ''Jawi character form: '' @ character @ ''. '' @
     ''Info: '' @ info @ '' '' @
     ''Example word in Latin is ''  @ [CHR 0x27] @ latin_example @ [CHR 0x27] @ '' '' @
     ''and in Jawi is '' @ [CHR 0x27] @ jawi_example @ [CHR 0x27] @ ''.''"

text \<open>
  The body of the loop over \<open>knowledge_base\<close> (ingest.py, lines 26 to 37): \<open>Inl\<close> is the
  exception that leaves the loop, \<open>Inr None\<close> a record that appends nothing,
  \<open>Inr (Some text)\<close> the appended document. The f-string evaluates its fields
  from left to right, so the first missing key is the one reported.
\<close>

definition flatten :: "item \<Rightarrow> exn + string option" where
  "flatten item =
     (if item ''type'' = Some ''general_topic'' then
        (case subscript item ''topic'' of Inl e \<Rightarrow> Inl e | Inr topic \<Rightarrow>
           (case subscript item ''content'' of Inl e \<Rightarrow> Inl e | Inr content \<Rightarrow>
              Inr (Some (topic_template topic content))))
      else if item ''type'' = Some ''letter'' then
        (case subscript item ''name'' of Inl e \<Rightarrow> Inl e | Inr name \<Rightarrow>
           (case subscript item ''info'' of Inl e \<Rightarrow> Inl e | Inr info \<Rightarrow>
              Inr (Some (letter_template name (get_default item ''character'' [])
                           info (get_default item ''latin_example'' [])
                           (get_default item ''jawi_example'' [])))))
      else Inr None)"

text \<open>
  The loop itself, with \<open>documents\<close> as the accumulator. An exception ends the
  script: nothing after the loop runs, so no artifact is written.
\<close>

fun ingest_loop :: "item list \<Rightarrow> string list \<Rightarrow> exn + string list" where
  "ingest_loop [] documents = Inr documents"
| "ingest_loop (item # rest) documents =
     (case flatten item of
        Inl e \<Rightarrow> Inl e
      | Inr None \<Rightarrow> ingest_loop rest documents
      | Inr (Some text) \<Rightarrow> ingest_loop rest (documents @ [text]))"

definition ingest :: "item list \<Rightarrow> exn + string list" where
  "ingest knowledge_base = ingest_loop knowledge_base []"

section \<open>app.py: values exchanged with the collaborators\<close>

text \<open>
  A distance returned by the index is a float: a finite value, an infinity or
  NaN. Only the comparison \<open><=\<close> of line 107 is needed; it is false as soon as one
  side is NaN.
\<close>

datatype float = Finite real | PosInf | NegInf | NaN

fun float_le :: "float \<Rightarrow> float \<Rightarrow> bool" where
  "float_le NaN y = False"
| "float_le x NaN = False"
| "float_le NegInf y = True"
| "float_le x PosInf = True"
| "float_le (Finite a) (Finite b) = (a \<le> b)"
| "float_le x y = False"

definition RELEVANCE_THRESHOLD :: float where
  "RELEVANCE_THRESHOLD = Finite 1.0"

definition MODEL_NAME :: string where
  "MODEL_NAME = ''vllm-qwen3''"

record message =
  role :: string
  content :: string

record payload =
  model :: string
  messages :: "message list"
  max_tokens :: int
  temperature :: real

text \<open>
  The body of a request, after \<open>request.json\<close>: \<open>data.get('query')\<close>,
  \<open>data.get('history', [])\<close> and \<open>data.get('context')\<close>. \<open>None\<close> is a missing key
  (or a JSON null).
\<close>

record request =
  user_query :: "string option"
  chat_history :: "message list"
  initial_context :: "string option"

datatype json =
    JNull
  | JBool bool
  | JNum real
  | JStr string
  | JArr "json list"
  | JObj "(string \<times> json) list"

text \<open>
  What \<open>requests.post\<close> does: it raises, or it returns a response with a status
  code and a body, whose JSON value is \<open>None\<close> when the body does not parse.
\<close>

datatype post_result = Raises exn | Response nat "json option"

text \<open>
  The state loaded at startup and the three collaborators, for an embedding
  type \<open>'v\<close>: \<open>retriever_model.encode([s])\<close>, \<open>jawi_index.search(v, k=1)\<close> read at
  \<open>distances[0][0]\<close> and \<open>indices[0][0]\<close>, and \<open>requests.post\<close> with the payload.
  The last field is \<open>str(e)\<close>: the text of an exception is worded by the
  interpreter and by the \<open>requests\<close> library, not by this repository, so it is
  taken as given.
\<close>

record 'v services =
  documents :: "string list"
  encode :: "string \<Rightarrow> 'v"
  index_search :: "'v \<Rightarrow> float \<times> int"
  post :: "payload \<Rightarrow> post_result"
  str_exn :: "exn \<Rightarrow> string"

text \<open>The calls a handler makes to the collaborators, in order.\<close>

datatype 'v call = Encode string | IndexSearch 'v | Post payload

datatype body = ResponseBody string | ErrorBody string

record http_response =
  status :: nat
  body :: body

section \<open>app.py: the exact-match dictionary\<close>

text \<open>
  Line 50: \<open>doc.split('.')[0].replace("Letter name: ", "").strip().lower()\<close>.
  Only the subscript can raise.
\<close>

definition letter_key :: "string \<Rightarrow> exn + string" where
  "letter_key doc =
     (case py_index (split CHR ''.'' doc) 0 of
        Inl e \<Rightarrow> Inl e
      | Inr seg \<Rightarrow> Inr (lower (strip (replace ''Letter name: '' [] seg))))"

text \<open>
  Lines 45 to 53: the loop over \<open>documents\<close>, the dictionary being the
  accumulator; a later document overwrites an earlier one with the same name.
\<close>

fun lookup_loop :: "string list \<Rightarrow> (string \<rightharpoonup> string) \<Rightarrow> (string \<rightharpoonup> string)" where
  "lookup_loop [] document_lookup = document_lookup"
| "lookup_loop (doc # docs) document_lookup =
     (if startswith doc ''Letter name:'' then
        (case letter_key doc of
           Inl e \<Rightarrow> lookup_loop docs document_lookup
         | Inr name \<Rightarrow> lookup_loop docs (document_lookup(name \<mapsto> doc)))
      else lookup_loop docs document_lookup)"

definition document_lookup :: "string list \<Rightarrow> (string \<rightharpoonup> string)" where
  "document_lookup docs = lookup_loop docs Map.empty"

section \<open>app.py: the chat endpoint\<close>

text \<open>Line 86: \<open>initial_context if initial_context else user_query\<close>.\<close>

definition select_search_query :: "string option \<Rightarrow> string \<Rightarrow> string" where
  "select_search_query ctx q =
     (case ctx of None \<Rightarrow> q | Some c \<Rightarrow> if c = [] then q else c)"

text \<open>
  Lines 90 to 111. The three branches are kept apart by the constructor;
  \<open>retrieved_context\<close> is the variable of that name after the branch.
\<close>

datatype outcome = ExactMatch string | SemanticMatch string float | NoMatch

fun retrieved_context :: "outcome \<Rightarrow> string option" where
  "retrieved_context (ExactMatch doc) = Some doc"
| "retrieved_context (SemanticMatch doc d) = Some doc"
| "retrieved_context NoMatch = None"

definition retrieve :: "'v services \<Rightarrow> string \<Rightarrow> (exn + outcome) \<times> 'v call list" where
  "retrieve sv search_query =
     (let normalized_query = strip (lower search_query) in
      case document_lookup (documents sv) normalized_query of
        Some doc \<Rightarrow> (Inr (ExactMatch doc), [])
      | None \<Rightarrow>
          (let query_embedding = encode sv search_query;
               distance = fst (index_search sv query_embedding);
               idx = snd (index_search sv query_embedding);
               calls = [Encode search_query, IndexSearch query_embedding]
           in if float_le distance RELEVANCE_THRESHOLD then
                (case py_index (documents sv) idx of
                   Inl e \<Rightarrow> (Inl e, calls)
                 | Inr doc \<Rightarrow> (Inr (SemanticMatch doc distance), calls))
              else (Inr NoMatch, calls)))"

definition GROUNDED_SYSTEM_PROMPT :: string where
  "GROUNDED_SYSTEM_PROMPT =
     ''You are JawiAI, an intelligent and precise AI assistant for the '' @
     ''Jawi Script. Follow these rules strictly:'' @
     ''\<newline>'' @
     ''1.  **Grounding Rule:** Your answers MUST be based ONLY on the '' @
     ''provided 'Context' and the 'Conversation History'. Do not invent '' @
     ''information.'' @
     ''\<newline>'' @
     ''2.  **Formatting Rule:** When giving an example, you MUST use the '' @
     ''format: Latin (Jawi).'' @
     ''\<newline>'' @
     ''3.  **Follow-up Rule:** If the user asks for 'another' or 'more', '' @
     ''provide another example or detail related to the last topic.'' @
     ''\<newline>'' @
     ''4.  **Repetition Handling Rule:** If you find yourself out of new '' @
     ''examples from the 'Context', you MUST offer to switch to a '' @
     ''creative mode. For example, say: '' @
     [CHR 0x22] @
     ''I have no more examples for that in my knowledge base. Would you '' @
     ''like me to try to **create a new example** for you?'' @
     [CHR 0x22] @
     ''\<newline>'' @
     ''5.  **Fallback Rule:** If you cannot answer the question based on '' @
     ''the provided context or history, state that you do not have that '' @
     ''information.''"

definition FALLBACK_SYSTEM_PROMPT :: string where
  "FALLBACK_SYSTEM_PROMPT =
     ''You are JawiAI, an assistant that ONLY discusses the Jawi script. '' @
     ''The user's message seems unclear or off-topic. Politely inform '' @
     ''the user that you can only answer questions about the Jawi script '' @
     ''and ask them to clarify their question about Jawi.''"

text \<open>Lines 119 to 141, the factual mode.\<close>

definition grounded_payload :: "string \<Rightarrow> message list \<Rightarrow> string \<Rightarrow> payload" where
  "grounded_payload ctx hist q =
     \<lparr>model = MODEL_NAME,
      messages = [\<lparr>role = ''system'', content = GROUNDED_SYSTEM_PROMPT\<rparr>] @ hist @
        [\<lparr>role = ''user'',
          content = ''Context:\<newline>---\<newline>'' @ ctx @ ''\<newline>---\<newline>\<newline>Question: '' @ q\<rparr>],
      max_tokens = 300,
      temperature = 0.5\<rparr>"

text \<open>Lines 147 to 159, the guarded generative mode.\<close>

definition fallback_payload :: "message list \<Rightarrow> string \<Rightarrow> payload" where
  "fallback_payload hist q =
     \<lparr>model = MODEL_NAME,
      messages = [\<lparr>role = ''system'', content = FALLBACK_SYSTEM_PROMPT\<rparr>] @ hist @
        [\<lparr>role = ''user'', content = q\<rparr>],
      max_tokens = 1024,
      temperature = 0.7\<rparr>"

text \<open>Line 115, \<open>if retrieved_context:\<close>: \<open>None\<close> and the empty string are false.\<close>

definition build_payload :: "string option \<Rightarrow> message list \<Rightarrow> string \<Rightarrow> payload" where
  "build_payload ctx hist q =
     (case ctx of
        None \<Rightarrow> fallback_payload hist q
      | Some c \<Rightarrow> if c = [] then fallback_payload hist q else grounded_payload c hist q)"

text \<open>
  Subscripting a decoded JSON value: a dictionary by a key (the last of equal
  keys wins when the object is decoded), a list or a string by an integer;
  anything else raises.
\<close>

fun getitem :: "json \<Rightarrow> key \<Rightarrow> exn + json" where
  "getitem (JObj kvs) (StrKey k) =
     (case map_of (rev kvs) k of None \<Rightarrow> Inl (KeyError (StrKey k)) | Some v \<Rightarrow> Inr v)"
| "getitem (JObj kvs) (IntKey i) = Inl (KeyError (IntKey i))"
| "getitem (JArr xs) (IntKey i) = py_index xs i"
| "getitem (JStr s) (IntKey i) =
     (case py_index s i of Inl e \<Rightarrow> Inl e | Inr c \<Rightarrow> Inr (JStr [c]))"
| "getitem v k = Inl TypeError"

text \<open>\<open>ai_response.strip()\<close>: only a string has the method.\<close>

fun strip_method :: "json \<Rightarrow> exn + string" where
  "strip_method (JStr s) = Inr (strip s)"
| "strip_method v = Inl AttributeError"

definition bind :: "exn + 'a \<Rightarrow> ('a \<Rightarrow> exn + 'b) \<Rightarrow> exn + 'b" where
  "bind r f = (case r of Inl e \<Rightarrow> Inl e | Inr x \<Rightarrow> f x)"

text \<open>
  The body of the \<open>try\<close> block (lines 163 to 173, and 205 to 209):
  \<open>raise_for_status\<close> raises on a 4xx or 5xx status, then
  \<open>response_data['choices'][0]['message']['content']\<close> and \<open>strip\<close>.
\<close>

definition round_trip :: "post_result \<Rightarrow> exn + string" where
  "round_trip r =
     (case r of
        Raises e \<Rightarrow> Inl e
      | Response code js \<Rightarrow>
          if 400 \<le> code \<and> code < 600 then Inl (HTTPError code)
          else (case js of
                  None \<Rightarrow> Inl JSONDecodeError
                | Some response_data \<Rightarrow>
                    bind (getitem response_data (StrKey ''choices'')) (\<lambda>choices.
                    bind (getitem choices (IntKey 0)) (\<lambda>choice.
                    bind (getitem choice (StrKey ''message'')) (\<lambda>msg.
                    bind (getitem msg (StrKey ''content'')) strip_method)))))"

text \<open>The \<open>try\<close> with its \<open>except Exception\<close>: every exception becomes a 500.\<close>

definition call_llm :: "'v services \<Rightarrow> payload \<Rightarrow> http_response" where
  "call_llm sv p =
     (case round_trip (post sv p) of
        Inl e \<Rightarrow> \<lparr>status = 500, body = ErrorBody (str_exn sv e)\<rparr>
      | Inr ai_response \<Rightarrow> \<lparr>status = 200, body = ResponseBody ai_response\<rparr>)"

definition query_not_found :: http_response where
  "query_not_found = \<lparr>status = 400, body = ErrorBody ''Query not found''\<rparr>"

text \<open>
  The handler. The result is the response, or \<open>Inl\<close> for an exception that
  leaves the handler uncaught, with the calls made to the collaborators.
\<close>

definition chat :: "'v services \<Rightarrow> request \<Rightarrow> (exn + http_response) \<times> 'v call list" where
  "chat sv data =
     (case user_query data of
        None \<Rightarrow> (Inr query_not_found, [])
      | Some q \<Rightarrow>
          if q = [] then (Inr query_not_found, [])
          else
            (let search_query = select_search_query (initial_context data) q in
             case retrieve sv search_query of
               (Inl e, calls) \<Rightarrow> (Inl e, calls)
             | (Inr oc, calls) \<Rightarrow>
                 (let p = build_payload (retrieved_context oc) (chat_history data) q
                  in (Inr (call_llm sv p), calls @ [Post p]))))"

section \<open>app.py: the creative endpoint\<close>

definition creative_prompt :: "string \<Rightarrow> string" where
  "creative_prompt q =
     ''\<newline>'' @
     ''    You are a creative Jawi language teacher. Fulfill the user's '' @
     ''request creatively. Include both Latin and Jawi script whenever '' @
     ''possible.'' @
     ''\<newline>'' @
     ''    Request: '' @
     [CHR 0x22] @
     q @
     [CHR 0x22] @
     ''\<newline>'' @
     ''    Your Creative Answer:'' @
     ''\<newline>'' @
     ''    ''"

definition creative_payload :: "string \<Rightarrow> payload" where
  "creative_payload q =
     \<lparr>model = MODEL_NAME,
      messages = [\<lparr>role = ''user'', content = creative_prompt q\<rparr>],
      max_tokens = 150,
      temperature = 0.8\<rparr>"

definition chat_creative :: "'v services \<Rightarrow> request \<Rightarrow> (exn + http_response) \<times> 'v call list" where
  "chat_creative sv data =
     (case user_query data of
        None \<Rightarrow> (Inr query_not_found, [])
      | Some q \<Rightarrow>
          if q = [] then (Inr query_not_found, [])
          else (Inr (call_llm sv (creative_payload q)), [Post (creative_payload q)]))"

section \<open>A small instance\<close>

text \<open>
  Two knowledge records, the documents they flatten to, and services over
  them: the embedding of a text is its length, the index answers a vector of
  length 4 with document 1 at distance 0.5 and any other with document 0 at
  distance 1.5, and the generation service answers with a well-formed body.
  The exception texts of the instance are \<open>timed out\<close> for a timeout, the quoted
  key for a missing string key and \<open>error\<close> otherwise.
\<close>

definition example_kb :: "item list" where
  "example_kb =
     [[''type'' \<mapsto> ''letter'', ''name'' \<mapsto> ''Alif'', ''info'' \<mapsto> ''First.''],
      [''type'' \<mapsto> ''general_topic'', ''topic'' \<mapsto> ''Jawi'', ''content'' \<mapsto> ''A script.'']]"

definition example_documents :: "string list" where
  "example_documents =
     [''Letter name: Alif. Jawi character form: . Info: First. '' @
      ''Example word in Latin is '' @ [CHR 0x27, CHR 0x27] @
      '' and in Jawi is '' @ [CHR 0x27, CHR 0x27] @ ''.'',
      ''Topic: Jawi. Explanation: A script.'']"

definition example_reply :: json where
  "example_reply =
     JObj [(''choices'',
            JArr [JObj [(''message'', JObj [(''role'', JStr ''assistant''),
                                            (''content'', JStr '' Hello. '')])]])]"

fun example_text :: "exn \<Rightarrow> string" where
  "example_text Timeout = ''timed out''"
| "example_text (KeyError (StrKey k)) = [CHR 0x27] @ k @ [CHR 0x27]"
| "example_text e = ''error''"

definition example_services :: "nat services" where
  "example_services =
     \<lparr>documents = example_documents,
      encode = length,
      index_search = (\<lambda>v. if v = 4 then (Finite 0.5, 1) else (Finite 1.5, 0)),
      post = (\<lambda>p. Response 200 (Some example_reply)),
      str_exn = example_text\<rparr>"


text \<open>
  Two further knowledge bases: one with two letter records of the same name up
  to case, one with a letter name that contains a full stop.
\<close>

definition duplicate_kb :: "item list" where
  "duplicate_kb =
     [[''type'' \<mapsto> ''letter'', ''name'' \<mapsto> ''Alif'', ''info'' \<mapsto> ''Alone.''],
      [''type'' \<mapsto> ''letter'', ''name'' \<mapsto> ''alif'', ''info'' \<mapsto> ''Joined.'']]"

definition duplicate_documents :: "string list" where
  "duplicate_documents =
     [''Letter name: Alif. Jawi character form: . Info: Alone. '' @
      ''Example word in Latin is '' @ [CHR 0x27, CHR 0x27] @
      '' and in Jawi is '' @ [CHR 0x27, CHR 0x27] @ ''.'',
      ''Letter name: alif. Jawi character form: . Info: Joined. '' @
      ''Example word in Latin is '' @ [CHR 0x27, CHR 0x27] @
      '' and in Jawi is '' @ [CHR 0x27, CHR 0x27] @ ''.'']"

definition dotted_kb :: "item list" where
  "dotted_kb = [[''type'' \<mapsto> ''letter'', ''name'' \<mapsto> ''Ha (no. 2)'', ''info'' \<mapsto> ''Second.'']]"

definition dotted_documents :: "string list" where
  "dotted_documents =
     [''Letter name: Ha (no. 2). Jawi character form: . Info: Second. '' @
      ''Example word in Latin is '' @ [CHR 0x27, CHR 0x27] @
      '' and in Jawi is '' @ [CHR 0x27, CHR 0x27] @ ''.'']"

section \<open>Properties of ingest.py\<close>

lemma flatten_raises_KeyError:
  "flatten item = Inl e \<Longrightarrow> \<exists>k. e = KeyError (StrKey k) \<and> item k = None"
  by (auto simp: flatten_def subscript_def split: if_splits option.splits)

lemma ingest_loop_raises_KeyError:
  "ingest_loop kb docs = Inl e \<Longrightarrow> \<exists>k. e = KeyError (StrKey k)"
proof (induction kb arbitrary: docs)
  case Nil
  then show ?case by simp
next
  case (Cons item rest)
  show ?case
  proof (cases "flatten item")
    case (Inl e')
    with Cons.prems have "e = e'" by simp
    with Inl flatten_raises_KeyError show ?thesis by blast
  next
    case (Inr r)
    with Cons show ?thesis by (cases r) auto
  qed
qed

lemma ingest_loop_aborts:
  "item \<in> set kb \<Longrightarrow> flatten item = Inl e \<Longrightarrow> \<exists>e'. ingest_loop kb docs = Inl e'"
proof (induction kb arbitrary: docs)
  case Nil
  then show ?case by simp
next
  case (Cons x rest)
  show ?case
  proof (cases "flatten x")
    case (Inl e')
    then show ?thesis by simp
  next
    case (Inr r)
    with Cons.prems have "item \<in> set rest" by auto
    with Cons.IH Cons.prems(2) Inr show ?thesis by (cases r) auto
  qed
qed

lemma optional_missing_is_empty:
  assumes "k \<in> {''character'', ''latin_example'', ''jawi_example''}" "item k = None"
  shows "flatten (item(k \<mapsto> [])) = flatten item"
proof -
  have t: "(item(k \<mapsto> [])) ''type'' = item ''type''"
    and a: "(item(k \<mapsto> [])) ''topic'' = item ''topic''"
    and b: "(item(k \<mapsto> [])) ''content'' = item ''content''"
    and c: "(item(k \<mapsto> [])) ''name'' = item ''name''"
    and d: "(item(k \<mapsto> [])) ''info'' = item ''info''"
    using assms(1) by auto
  have g: "get_default (item(k \<mapsto> [])) k' [] = get_default item k' []" for k'
    using assms(2) by (simp add: get_default_def)
  show ?thesis
    unfolding flatten_def subscript_def t a b c d g ..
qed

text \<open>
  Claim C7. The loop body is the fixed template of the record's variant: a
  \<open>general_topic\<close> record with its two fields gives
  \<open>Topic: {topic}. Explanation: {content}\<close>; a \<open>letter\<close> record with \<open>name\<close> and
  \<open>info\<close> gives the letter sentence, where each of \<open>character\<close>,
  \<open>latin_example\<close> and \<open>jawi_example\<close> that is missing leaves its place in the
  template empty; a record of any other type (or of none) appends no document
  and lets the loop go on.
\<close>

theorem flatten_is_template:
  "(item ''type'' = Some ''general_topic'' \<longrightarrow> item ''topic'' = Some t \<longrightarrow>
      item ''content'' = Some c \<longrightarrow>
      flatten item = Inr (Some (''Topic: '' @ t @ ''. Explanation: '' @ c)))
   \<and> (item ''type'' = Some ''letter'' \<longrightarrow> item ''name'' = Some n \<longrightarrow>
      item ''info'' = Some i \<longrightarrow>
      flatten item = Inr (Some (
        ''Letter name: '' @ n @ ''. Jawi character form: '' @
        (case item ''character'' of None \<Rightarrow> [] | Some v \<Rightarrow> v) @
        ''. Info: '' @ i @ '' Example word in Latin is '' @ [CHR 0x27] @
        (case item ''latin_example'' of None \<Rightarrow> [] | Some v \<Rightarrow> v) @
        [CHR 0x27] @ '' and in Jawi is '' @ [CHR 0x27] @
        (case item ''jawi_example'' of None \<Rightarrow> [] | Some v \<Rightarrow> v) @
        [CHR 0x27] @ ''.'')))
   \<and> (item ''type'' \<noteq> Some ''general_topic'' \<longrightarrow> item ''type'' \<noteq> Some ''letter'' \<longrightarrow>
      flatten item = Inr None \<and> ingest_loop (item # rest) docs = ingest_loop rest docs)"
  by (simp add: flatten_def subscript_def get_default_def topic_template_def
        letter_template_def)

theorem flatten_is_template_witness:
  "flatten [''type'' \<mapsto> ''general_topic'', ''topic'' \<mapsto> ''History'', ''content'' \<mapsto> ''Old.'']
     = Inr (Some ''Topic: History. Explanation: Old.'')
   \<and> flatten [''type'' \<mapsto> ''letter'', ''name'' \<mapsto> ''Alif'', ''info'' \<mapsto> ''First.'',
               ''character'' \<mapsto> ''A'']
     = Inr (Some (''Letter name: Alif. Jawi character form: A. Info: First. '' @
                  ''Example word in Latin is '' @ [CHR 0x27, CHR 0x27] @
                  '' and in Jawi is '' @ [CHR 0x27, CHR 0x27] @ ''.''))
   \<and> flatten [''type'' \<mapsto> ''digit'', ''name'' \<mapsto> ''One''] = Inr None
   \<and> ingest_loop [[''type'' \<mapsto> ''digit'', ''name'' \<mapsto> ''One'']] [''Topic: a. Explanation: b'']
     = Inr [''Topic: a. Explanation: b'']"
  using
    flatten_is_template [of "[''type'' \<mapsto> ''general_topic'', ''topic'' \<mapsto> ''History'', ''content'' \<mapsto> ''Old.'']"
      "''History''" "''Old.''" "[]" "[]" "[]" "[]"]
    flatten_is_template [of "[''type'' \<mapsto> ''letter'', ''name'' \<mapsto> ''Alif'', ''info'' \<mapsto> ''First.'',
               ''character'' \<mapsto> ''A'']" "[]" "[]" "''Alif''" "''First.''" "[]" "[]"]
    flatten_is_template [of "[''type'' \<mapsto> ''digit'', ''name'' \<mapsto> ''One'']" "[]" "[]" "[]" "[]"
       "[]" "[''Topic: a. Explanation: b'']"]
  by simp

text \<open>
  A record that lacks a required field is not rendered with an empty place:
  \<open>item['topic']\<close> and \<open>item['info']\<close> raise, and the exception ends the script
  even after a record that was flattened without fault.
\<close>

theorem missing_required_field_counterexample:
  "flatten [''type'' \<mapsto> ''general_topic'', ''content'' \<mapsto> ''Jawi is a script.'']
     = Inl (KeyError (StrKey ''topic''))
   \<and> flatten [''type'' \<mapsto> ''letter'', ''name'' \<mapsto> ''Alif''] = Inl (KeyError (StrKey ''info''))
   \<and> ingest [[''type'' \<mapsto> ''letter'', ''name'' \<mapsto> ''Alif'', ''info'' \<mapsto> ''First.''],
              [''type'' \<mapsto> ''general_topic'', ''content'' \<mapsto> ''Jawi is a script.'']]
     = Inl (KeyError (StrKey ''topic''))"
  by (simp add: ingest_def flatten_def subscript_def get_default_def)

text \<open>
  Claim C4, as the code has it. A \<open>general_topic\<close> record without \<open>topic\<close> or
  \<open>content\<close>, or a \<open>letter\<close> record without \<open>name\<close> or \<open>info\<close>, raises
  \<open>KeyError\<close> for a key the record lacks, and a knowledge base holding such a
  record ends in a \<open>KeyError\<close> with no document list. A \<open>letter\<close> record with
  both required fields always appends a document, and a missing optional field
  (\<open>character\<close>, \<open>latin_example\<close>, \<open>jawi_example\<close>) gives the same result as that
  field with the empty text.
\<close>

theorem missing_field_policy:
  "((item ''type'' = Some ''general_topic'' \<and> (item ''topic'' = None \<or> item ''content'' = None)
     \<or> item ''type'' = Some ''letter'' \<and> (item ''name'' = None \<or> item ''info'' = None))
    \<longrightarrow> (\<exists>k. flatten item = Inl (KeyError (StrKey k)) \<and> item k = None)
        \<and> (item \<in> set kb \<longrightarrow> (\<exists>k. ingest kb = Inl (KeyError (StrKey k)))))
   \<and> (item ''type'' = Some ''letter'' \<longrightarrow> item ''name'' = Some n \<longrightarrow> item ''info'' = Some i \<longrightarrow>
        (\<exists>doc. flatten item = Inr (Some doc)
           \<and> ingest_loop (item # rest) docs = ingest_loop rest (docs @ [doc])))
   \<and> (k \<in> {''character'', ''latin_example'', ''jawi_example''} \<longrightarrow> item k = None \<longrightarrow>
        flatten (item(k \<mapsto> [])) = flatten item)"
proof (intro conjI impI)
  assume miss: "item ''type'' = Some ''general_topic'' \<and> (item ''topic'' = None \<or> item ''content'' = None)
     \<or> item ''type'' = Some ''letter'' \<and> (item ''name'' = None \<or> item ''info'' = None)"
  then have "\<exists>e. flatten item = Inl e"
    by (auto simp: flatten_def subscript_def split: option.splits)
  then obtain e where e: "flatten item = Inl e" ..
  with flatten_raises_KeyError show "\<exists>k. flatten item = Inl (KeyError (StrKey k)) \<and> item k = None"
    by blast
  assume "item \<in> set kb"
  with e ingest_loop_aborts obtain e' where "ingest_loop kb [] = Inl e'" by blast
  with ingest_loop_raises_KeyError show "\<exists>k. ingest kb = Inl (KeyError (StrKey k))"
    unfolding ingest_def by blast
next
  assume "item ''type'' = Some ''letter''" "item ''name'' = Some n" "item ''info'' = Some i"
  then show "\<exists>doc. flatten item = Inr (Some doc)
           \<and> ingest_loop (item # rest) docs = ingest_loop rest (docs @ [doc])"
    by (simp add: flatten_def subscript_def)
next
  assume "k \<in> {''character'', ''latin_example'', ''jawi_example''}" "item k = None"
  then show "flatten (item(k \<mapsto> [])) = flatten item"
    by (rule optional_missing_is_empty)
qed

theorem missing_field_policy_witness:
  "(\<exists>k. flatten [''type'' \<mapsto> ''letter'', ''name'' \<mapsto> ''Alif''] = Inl (KeyError (StrKey k)))
   \<and> (\<exists>k. ingest [[''type'' \<mapsto> ''general_topic'', ''topic'' \<mapsto> ''a'', ''content'' \<mapsto> ''b''],
                   [''type'' \<mapsto> ''letter'', ''name'' \<mapsto> ''Alif'']] = Inl (KeyError (StrKey k)))
   \<and> (\<exists>doc. flatten [''type'' \<mapsto> ''letter'', ''name'' \<mapsto> ''Ba'', ''info'' \<mapsto> ''Second.'']
          = Inr (Some doc))
   \<and> flatten [''type'' \<mapsto> ''letter'', ''name'' \<mapsto> ''Ba'', ''info'' \<mapsto> ''Second.'',
              ''character'' \<mapsto> []]
     = flatten [''type'' \<mapsto> ''letter'', ''name'' \<mapsto> ''Ba'', ''info'' \<mapsto> ''Second.'']"
  using
    missing_field_policy [of "[''type'' \<mapsto> ''letter'', ''name'' \<mapsto> ''Alif'']"
      "[[''type'' \<mapsto> ''general_topic'', ''topic'' \<mapsto> ''a'', ''content'' \<mapsto> ''b''],
        [''type'' \<mapsto> ''letter'', ''name'' \<mapsto> ''Alif'']]" "[]" "[]" "[]" "[]" "[]"]
    missing_field_policy [of "[''type'' \<mapsto> ''letter'', ''name'' \<mapsto> ''Ba'', ''info'' \<mapsto> ''Second.'']"
      "[]" "''Ba''" "''Second.''" "[]" "[]" "''character''"]
  by simp blast

section \<open>Properties of app.py\<close>

lemma retrieve_hit:
  "document_lookup (documents sv) (strip (lower s)) = Some doc \<Longrightarrow>
   retrieve sv s = (Inr (ExactMatch doc), [])"
  by (simp add: retrieve_def)

lemma retrieve_miss:
  "document_lookup (documents sv) (strip (lower s)) = None \<Longrightarrow>
   retrieve sv s =
     (if float_le (fst (index_search sv (encode sv s))) RELEVANCE_THRESHOLD
      then (case py_index (documents sv) (snd (index_search sv (encode sv s))) of
              Inl e \<Rightarrow> Inl e
            | Inr doc \<Rightarrow> Inr (SemanticMatch doc (fst (index_search sv (encode sv s)))))
      else Inr NoMatch,
      [Encode s, IndexSearch (encode sv s)])"
  by (simp add: retrieve_def Let_def split: sum.splits)

lemma chat_valid:
  "user_query data = Some q \<Longrightarrow> q \<noteq> [] \<Longrightarrow>
   chat sv data =
     (case fst (retrieve sv (select_search_query (initial_context data) q)) of
        Inl e \<Rightarrow> (Inl e, snd (retrieve sv (select_search_query (initial_context data) q)))
      | Inr oc \<Rightarrow>
          (Inr (call_llm sv (build_payload (retrieved_context oc) (chat_history data) q)),
           snd (retrieve sv (select_search_query (initial_context data) q)) @
           [Post (build_payload (retrieved_context oc) (chat_history data) q)]))"
  by (simp add: chat_def Let_def split: prod.splits sum.splits)

lemma lookup_loop_origin:
  "lookup_loop docs m k = Some d \<Longrightarrow>
   m k = Some d \<or> (d \<in> set docs \<and> startswith d ''Letter name:'' \<and> letter_key d = Inr k)"
proof (induction docs arbitrary: m)
  case Nil
  then show ?case by simp
next
  case (Cons doc docs)
  show ?case
  proof (cases "startswith doc ''Letter name:''")
    case False
    with Cons.prems have "lookup_loop docs m k = Some d" by simp
    from Cons.IH [OF this] show ?thesis by auto
  next
    case True
    show ?thesis
    proof (cases "letter_key doc")
      case (Inl e)
      with True Cons.prems have "lookup_loop docs m k = Some d" by simp
      from Cons.IH [OF this] show ?thesis by auto
    next
      case (Inr name)
      with True Cons.prems have "lookup_loop docs (m(name \<mapsto> doc)) k = Some d" by simp
      from Cons.IH [OF this] True Inr show ?thesis by (auto split: if_splits)
    qed
  qed
qed

lemma document_lookup_origin:
  "document_lookup docs k = Some d \<Longrightarrow>
   d \<in> set docs \<and> startswith d ''Letter name:'' \<and> letter_key d = Inr k"
  using lookup_loop_origin [of docs Map.empty k d] by (simp add: document_lookup_def)

lemma document_lookup_nonempty: "document_lookup docs k = Some d \<Longrightarrow> d \<noteq> []"
  using document_lookup_origin [of docs k d] by (auto simp: startswith_def)

text \<open>
  Claim C1. A request that passes validation and whose search term, lower-cased
  and stripped, is a key of \<open>document_lookup\<close>: the retrieval takes the
  exact-match branch with the document stored under that key and makes no call
  at all, so the handler's only call is the one to the generation service, with
  the grounded payload built from that document; neither \<open>encode\<close> nor the index
  search is called.
\<close>

theorem exact_match_short_circuit:
  assumes "user_query data = Some q" and "q \<noteq> []"
    and "document_lookup (documents sv)
           (strip (lower (select_search_query (initial_context data) q))) = Some doc"
  shows "retrieve sv (select_search_query (initial_context data) q) = (Inr (ExactMatch doc), [])
       \<and> chat sv data =
           (Inr (call_llm sv (grounded_payload doc (chat_history data) q)),
            [Post (grounded_payload doc (chat_history data) q)])
       \<and> (\<forall>s v. Encode s \<notin> set (snd (chat sv data)) \<and> IndexSearch v \<notin> set (snd (chat sv data)))"
proof -
  have r: "retrieve sv (select_search_query (initial_context data) q) = (Inr (ExactMatch doc), [])"
    using assms(3) by (rule retrieve_hit)
  have ne: "doc \<noteq> []" using assms(3) by (rule document_lookup_nonempty)
  have c: "chat sv data =
           (Inr (call_llm sv (grounded_payload doc (chat_history data) q)),
            [Post (grounded_payload doc (chat_history data) q)])"
    using ne by (simp add: chat_valid [OF assms(1,2)] r build_payload_def)
  show ?thesis using r c by simp
qed

lemmas string_eval = strip_def lower_def lower_char_def upper_chars_def lower_chars_def
  is_space_def startswith_def

lemmas lookup_eval = document_lookup_def letter_key_def py_index_def string_eval

lemma example_lookup_alif:
  "document_lookup example_documents ''alif'' = Some (hd example_documents)"
  by (simp add: lookup_eval example_documents_def)

lemma example_lookup_miss:
  "k \<noteq> ''alif'' \<Longrightarrow> document_lookup example_documents k = None"
  by (simp add: lookup_eval example_documents_def)

lemma example_round_trip:
  "round_trip (Response 200 (Some example_reply)) = Inr ''Hello.''"
  by (simp add: round_trip_def example_reply_def bind_def py_index_def string_eval)

lemma example_services_simps:
  "documents example_services = example_documents"
  "encode example_services s = length s"
  "index_search example_services v = (if v = 4 then (Finite 0.5, 1) else (Finite 1.5, 0))"
  "post example_services p = Response 200 (Some example_reply)"
  "str_exn example_services e = example_text e"
  by (simp_all add: example_services_def)

theorem exact_match_short_circuit_witness:
  "chat example_services
     \<lparr>user_query = Some '' ALIF '', chat_history = [], initial_context = None\<rparr> =
     (Inr \<lparr>status = 200, body = ResponseBody ''Hello.''\<rparr>,
      [Post (grounded_payload (hd example_documents) [] '' ALIF '')])"
proof -
  let ?d = "\<lparr>user_query = Some '' ALIF '', chat_history = [], initial_context = None\<rparr>"
  have h1: "user_query ?d = Some '' ALIF ''" by simp
  have h2: "'' ALIF '' \<noteq> []" by simp
  have n: "strip (lower (select_search_query (initial_context ?d) '' ALIF '')) = ''alif''"
    by (simp add: select_search_query_def string_eval)
  have h3: "document_lookup (documents example_services)
           (strip (lower (select_search_query (initial_context ?d) '' ALIF ''))) =
           Some (hd example_documents)"
    unfolding n by (simp add: example_services_simps example_lookup_alif)
  from exact_match_short_circuit [OF h1 h2 h3] show ?thesis
    by (simp add: call_llm_def example_services_simps example_round_trip)
qed

lemma float_le_threshold [simp]:
  "float_le (Finite d) RELEVANCE_THRESHOLD = (d \<le> 1)"
  by (simp add: RELEVANCE_THRESHOLD_def)

text \<open>
  Claim C2. A request that passes validation and has no exact match, the index
  answering \<open>(distance, idx)\<close> for the embedded search term. If
  \<open>distance <= RELEVANCE_THRESHOLD\<close> and \<open>documents[idx]\<close> is \<open>doc\<close>, the outcome is the
  semantic match with \<open>doc\<close>. If the comparison fails (the distance exceeds 1.0,
  or is NaN), the outcome is no match and the posted payload is the guarded
  one: the clarification system prompt, the history, and the raw query as the
  last turn with no context segment, at 1024 tokens and temperature 0.7.
\<close>

theorem semantic_threshold:
  assumes "user_query data = Some q" and "q \<noteq> []"
    and "s = select_search_query (initial_context data) q"
    and "document_lookup (documents sv) (strip (lower s)) = None"
    and "index_search sv (encode sv s) = (distance, idx)"
  shows "(float_le distance RELEVANCE_THRESHOLD \<longrightarrow> py_index (documents sv) idx = Inr doc \<longrightarrow>
            retrieve sv s = (Inr (SemanticMatch doc distance), [Encode s, IndexSearch (encode sv s)]))
       \<and> (\<not> float_le distance RELEVANCE_THRESHOLD \<longrightarrow>
            retrieve sv s = (Inr NoMatch, [Encode s, IndexSearch (encode sv s)])
          \<and> (\<exists>p. chat sv data = (Inr (call_llm sv p), [Encode s, IndexSearch (encode sv s), Post p])
               \<and> messages p =
                   [\<lparr>role = ''system'', content = FALLBACK_SYSTEM_PROMPT\<rparr>] @ chat_history data @
                   [\<lparr>role = ''user'', content = q\<rparr>]
               \<and> max_tokens p = 1024 \<and> temperature p = 0.7))"
proof (intro conjI impI)
  assume "float_le distance RELEVANCE_THRESHOLD" "py_index (documents sv) idx = Inr doc"
  then show "retrieve sv s = (Inr (SemanticMatch doc distance), [Encode s, IndexSearch (encode sv s)])"
    by (simp add: retrieve_miss [OF assms(4)] assms(5))
next
  assume far: "\<not> float_le distance RELEVANCE_THRESHOLD"
  then show r: "retrieve sv s = (Inr NoMatch, [Encode s, IndexSearch (encode sv s)])"
    by (simp add: retrieve_miss [OF assms(4)] assms(5))
  have "chat sv data =
      (Inr (call_llm sv (fallback_payload (chat_history data) q)),
       [Encode s, IndexSearch (encode sv s), Post (fallback_payload (chat_history data) q)])"
    using r by (simp add: chat_valid [OF assms(1,2)] assms(3) [symmetric] build_payload_def)
  then show "\<exists>p. chat sv data = (Inr (call_llm sv p), [Encode s, IndexSearch (encode sv s), Post p])
               \<and> messages p =
                   [\<lparr>role = ''system'', content = FALLBACK_SYSTEM_PROMPT\<rparr>] @ chat_history data @
                   [\<lparr>role = ''user'', content = q\<rparr>]
               \<and> max_tokens p = 1024 \<and> temperature p = 0.7"
    by (intro exI [of _ "fallback_payload (chat_history data) q"]) (simp add: fallback_payload_def)
qed

theorem semantic_threshold_witness:
  "retrieve example_services ''what'' =
     (Inr (SemanticMatch (example_documents ! 1) (Finite 0.5)), [Encode ''what'', IndexSearch 4])
   \<and> retrieve example_services ''weather'' = (Inr NoMatch, [Encode ''weather'', IndexSearch 7])
   \<and> (\<exists>p. chat example_services
        \<lparr>user_query = Some ''weather'', chat_history = [], initial_context = None\<rparr> =
          (Inr (call_llm example_services p), [Encode ''weather'', IndexSearch 7, Post p])
        \<and> messages p = [\<lparr>role = ''system'', content = FALLBACK_SYSTEM_PROMPT\<rparr>,
                         \<lparr>role = ''user'', content = ''weather''\<rparr>])"
proof -
  let ?a = "\<lparr>user_query = Some ''what'', chat_history = [], initial_context = None\<rparr>"
  let ?b = "\<lparr>user_query = Some ''weather'', chat_history = [], initial_context = None\<rparr>"
  have a1: "user_query ?a = Some ''what''" and a2: "''what'' \<noteq> []"
    and a3: "''what'' = select_search_query (initial_context ?a) ''what''"
    by (simp_all add: select_search_query_def)
  have a4: "document_lookup (documents example_services) (strip (lower ''what'')) = None"
    by (simp add: example_services_simps example_lookup_miss string_eval)
  have a5: "index_search example_services (encode example_services ''what'') = (Finite 0.5, 1)"
    by (simp add: example_services_simps)
  have a6: "float_le (Finite 0.5) RELEVANCE_THRESHOLD" by simp
  have a7: "py_index (documents example_services) 1 = Inr (example_documents ! 1)"
    by (simp add: example_services_simps py_index_def example_documents_def)
  have b1: "user_query ?b = Some ''weather''" and b2: "''weather'' \<noteq> []"
    and b3: "''weather'' = select_search_query (initial_context ?b) ''weather''"
    by (simp_all add: select_search_query_def)
  have b4: "document_lookup (documents example_services) (strip (lower ''weather'')) = None"
    by (simp add: example_services_simps example_lookup_miss string_eval)
  have b5: "index_search example_services (encode example_services ''weather'') = (Finite 1.5, 0)"
    by (simp add: example_services_simps)
  have b6: "\<not> float_le (Finite 1.5) RELEVANCE_THRESHOLD" by simp
  have ea: "encode example_services ''what'' = 4" and eb: "encode example_services ''weather'' = 7"
    by (simp_all add: example_services_simps)
  from semantic_threshold [OF a1 a2 a3 a4 a5, of "example_documents ! 1"] a6 a7
    semantic_threshold [OF b1 b2 b3 b4 b5] b6
  show ?thesis unfolding ea eb by auto
qed

lemma retrieve_calls:
  "snd (retrieve sv s) = [] \<or> snd (retrieve sv s) = [Encode s, IndexSearch (encode sv s)]"
  by (simp add: retrieve_def Let_def split: option.splits sum.splits)

lemma retrieve_exact_iff:
  "(fst (retrieve sv s) = Inr (ExactMatch d)) =
   (document_lookup (documents sv) (strip (lower s)) = Some d)"
  by (simp add: retrieve_def Let_def split: option.splits sum.splits)

lemma build_payload_question:
  "content (last (messages (build_payload ctx hist q))) =
     (case ctx of
        None \<Rightarrow> q
      | Some c \<Rightarrow> if c = [] then q
                  else ''Context:\<newline>---\<newline>'' @ c @ ''\<newline>---\<newline>\<newline>Question: '' @ q)"
  by (simp add: build_payload_def grounded_payload_def fallback_payload_def split: option.splits)

text \<open>
  Claim C3. A request that passes validation and carries a non-empty context
  hint: the search term of line 86 is the hint, so the dictionary is looked up
  at the normalised hint and, when the semantic branch runs, it is the hint
  that is embedded and searched for. Whatever the outcome, the last turn of the
  posted payload asks the raw query text: it is that text alone in the guarded
  mode and \<open>Context: ... Question: \<close> followed by that text in the factual mode.
  The hint enters the prompt only through the document it retrieved.
\<close>

theorem hint_retrieves_query_asks:
  assumes "user_query data = Some q" and "q \<noteq> []"
    and "initial_context data = Some hint" and "hint \<noteq> []"
  shows "select_search_query (initial_context data) q = hint
       \<and> (fst (retrieve sv hint) = Inr (ExactMatch d)) =
           (document_lookup (documents sv) (strip (lower hint)) = Some d)
       \<and> (snd (retrieve sv hint) = [] \<or>
           snd (retrieve sv hint) = [Encode hint, IndexSearch (encode sv hint)])
       \<and> (fst (retrieve sv hint) = Inl e \<longrightarrow> chat sv data = (Inl e, snd (retrieve sv hint)))
       \<and> (fst (retrieve sv hint) = Inr oc \<longrightarrow>
            (\<exists>p. chat sv data = (Inr (call_llm sv p), snd (retrieve sv hint) @ [Post p])
               \<and> content (last (messages p)) =
                   (case retrieved_context oc of
                      None \<Rightarrow> q
                    | Some c \<Rightarrow>
                        if c = [] then q
                        else ''Context:\<newline>---\<newline>'' @ c @ ''\<newline>---\<newline>\<newline>Question: '' @ q)))"
proof -
  have s: "select_search_query (initial_context data) q = hint"
    using assms(3,4) by (simp add: select_search_query_def)
  have c: "chat sv data =
     (case fst (retrieve sv hint) of
        Inl e \<Rightarrow> (Inl e, snd (retrieve sv hint))
      | Inr oc \<Rightarrow>
          (Inr (call_llm sv (build_payload (retrieved_context oc) (chat_history data) q)),
           snd (retrieve sv hint) @
           [Post (build_payload (retrieved_context oc) (chat_history data) q)]))"
    using chat_valid [OF assms(1,2), of sv] unfolding s .
  have p: "fst (retrieve sv hint) = Inr oc \<longrightarrow>
            (\<exists>p. chat sv data = (Inr (call_llm sv p), snd (retrieve sv hint) @ [Post p])
               \<and> content (last (messages p)) =
                   (case retrieved_context oc of
                      None \<Rightarrow> q
                    | Some c \<Rightarrow>
                        if c = [] then q
                        else ''Context:\<newline>---\<newline>'' @ c @ ''\<newline>---\<newline>\<newline>Question: '' @ q))"
  proof
    assume oc: "fst (retrieve sv hint) = Inr oc"
    show "\<exists>p. chat sv data = (Inr (call_llm sv p), snd (retrieve sv hint) @ [Post p])
               \<and> content (last (messages p)) =
                   (case retrieved_context oc of
                      None \<Rightarrow> q
                    | Some c \<Rightarrow>
                        if c = [] then q
                        else ''Context:\<newline>---\<newline>'' @ c @ ''\<newline>---\<newline>\<newline>Question: '' @ q)"
      by (rule exI [of _ "build_payload (retrieved_context oc) (chat_history data) q"])
        (simp add: c oc build_payload_question)
  qed
  have e: "fst (retrieve sv hint) = Inl e \<longrightarrow> chat sv data = (Inl e, snd (retrieve sv hint))"
    by (simp add: c)
  from s retrieve_exact_iff [of sv hint d] retrieve_calls [of sv hint] e p show ?thesis
    by blast
qed

text \<open>
  Claim C5, as the code has it. The check of line 79 is on the raw value: a
  request whose query is missing or is the empty string is answered with status
  400 and \<open>Query not found\<close> before any call is made; every other query, also one
  of whitespace only, is not rejected there.
\<close>

theorem missing_or_empty_query_rejected:
  "((user_query data = None \<or> user_query data = Some []) \<longrightarrow>
      chat sv data = (Inr \<lparr>status = 400, body = ErrorBody ''Query not found''\<rparr>, []))
   \<and> (user_query data = Some q \<longrightarrow> q \<noteq> [] \<longrightarrow>
      fst (chat sv data) \<noteq> Inr \<lparr>status = 400, body = ErrorBody ''Query not found''\<rparr>)"
proof (intro conjI impI)
  assume "user_query data = None \<or> user_query data = Some []"
  then show "chat sv data = (Inr \<lparr>status = 400, body = ErrorBody ''Query not found''\<rparr>, [])"
    by (auto simp: chat_def query_not_found_def)
next
  assume q: "user_query data = Some q" "q \<noteq> []"
  show "fst (chat sv data) \<noteq> Inr \<lparr>status = 400, body = ErrorBody ''Query not found''\<rparr>"
    by (simp add: chat_valid [OF q] call_llm_def split: sum.splits)
qed

text \<open>
  Claim C10. For a request that passes validation there is one retrieval result
  (the outcome or the exception, with the calls made) that every history gives:
  replacing the history changes neither the branch taken nor the document, only
  the messages of the payload built from that outcome.
\<close>

theorem retrieval_independent_of_history:
  assumes "user_query data = Some q" and "q \<noteq> []"
  shows "\<exists>r calls. \<forall>h.
           retrieve sv (select_search_query (initial_context (data\<lparr>chat_history := h\<rparr>)) q)
             = (r, calls)
         \<and> chat sv (data\<lparr>chat_history := h\<rparr>) =
             (case r of
                Inl e \<Rightarrow> (Inl e, calls)
              | Inr oc \<Rightarrow>
                  (Inr (call_llm sv (build_payload (retrieved_context oc) h q)),
                   calls @ [Post (build_payload (retrieved_context oc) h q)]))"
proof (intro exI allI)
  fix h
  let ?s = "select_search_query (initial_context data) q"
  have v: "user_query (data\<lparr>chat_history := h\<rparr>) = Some q" using assms(1) by simp
  show "retrieve sv (select_search_query (initial_context (data\<lparr>chat_history := h\<rparr>)) q)
             = (fst (retrieve sv ?s), snd (retrieve sv ?s))
         \<and> chat sv (data\<lparr>chat_history := h\<rparr>) =
             (case fst (retrieve sv ?s) of
                Inl e \<Rightarrow> (Inl e, snd (retrieve sv ?s))
              | Inr oc \<Rightarrow>
                  (Inr (call_llm sv (build_payload (retrieved_context oc) h q)),
                   snd (retrieve sv ?s) @ [Post (build_payload (retrieved_context oc) h q)]))"
    by (simp add: chat_valid [OF v assms(2)] split: sum.splits)
qed

theorem hint_retrieves_query_asks_witness:
  "fst (retrieve example_services ''Alif'') = Inr (ExactMatch (hd example_documents))
   \<and> (\<exists>p. chat example_services
             \<lparr>user_query = Some ''Tell me more'', chat_history = [],
              initial_context = Some ''Alif''\<rparr> =
            (Inr (call_llm example_services p), snd (retrieve example_services ''Alif'') @ [Post p])
          \<and> content (last (messages p)) =
              ''Context:\<newline>---\<newline>'' @ hd example_documents @
              ''\<newline>---\<newline>\<newline>Question: Tell me more'')"
proof -
  let ?d = "\<lparr>user_query = Some ''Tell me more'', chat_history = [],
              initial_context = Some ''Alif''\<rparr>"
  have h1: "user_query ?d = Some ''Tell me more''" and h2: "''Tell me more'' \<noteq> []"
    and h3: "initial_context ?d = Some ''Alif''" and h4: "''Alif'' \<noteq> []"
    by simp_all
  have n: "strip (lower ''Alif'') = ''alif''" by (simp add: string_eval)
  have l: "document_lookup (documents example_services) (strip (lower ''Alif'')) =
           Some (hd example_documents)"
    unfolding n by (simp add: example_services_simps example_lookup_alif)
  have ne: "hd example_documents \<noteq> []" by (simp add: example_documents_def)
  note t = hint_retrieves_query_asks [OF h1 h2 h3 h4, of example_services
      "hd example_documents" _ "ExactMatch (hd example_documents)"]
  from t l have r: "fst (retrieve example_services ''Alif'') = Inr (ExactMatch (hd example_documents))"
    by blast
  with t ne show ?thesis by simp
qed

text \<open>
  A query of two spaces normalises to the empty string, yet line 79 lets it
  pass: the text is embedded, the index is searched and the generation service
  is called.
\<close>

theorem whitespace_query_counterexample:
  "strip (lower ''  '') = []
   \<and> chat example_services
        \<lparr>user_query = Some ''  '', chat_history = [], initial_context = None\<rparr> =
      (Inr \<lparr>status = 200, body = ResponseBody ''Hello.''\<rparr>,
       [Encode ''  '', IndexSearch 2, Post (fallback_payload [] ''  '')])"
proof -
  let ?d = "\<lparr>user_query = Some ''  '', chat_history = [], initial_context = None\<rparr>"
  have n: "strip (lower ''  '') = []" by (simp add: string_eval)
  have h1: "user_query ?d = Some ''  ''" and h2: "''  '' \<noteq> []" by simp_all
  have s: "select_search_query (initial_context ?d) ''  '' = ''  ''"
    by (simp add: select_search_query_def)
  have l: "document_lookup (documents example_services) (strip (lower ''  '')) = None"
    unfolding n by (simp add: example_services_simps example_lookup_miss)
  have r: "retrieve example_services ''  '' = (Inr NoMatch, [Encode ''  '', IndexSearch 2])"
    by (simp add: retrieve_miss [OF l] example_services_simps)
  have "chat example_services ?d =
      (Inr \<lparr>status = 200, body = ResponseBody ''Hello.''\<rparr>,
       [Encode ''  '', IndexSearch 2, Post (fallback_payload [] ''  '')])"
    unfolding chat_valid [OF h1 h2] s r
    by (simp add: build_payload_def call_llm_def example_services_simps example_round_trip)
  with n show ?thesis by simp
qed

theorem missing_or_empty_query_rejected_witness:
  "chat example_services \<lparr>user_query = None, chat_history = [], initial_context = Some ''Alif''\<rparr>
     = (Inr \<lparr>status = 400, body = ErrorBody ''Query not found''\<rparr>, [])
   \<and> chat example_services \<lparr>user_query = Some [], chat_history = [], initial_context = None\<rparr>
     = (Inr \<lparr>status = 400, body = ErrorBody ''Query not found''\<rparr>, [])
   \<and> fst (chat example_services \<lparr>user_query = Some ''  '', chat_history = [], initial_context = None\<rparr>)
     \<noteq> Inr \<lparr>status = 400, body = ErrorBody ''Query not found''\<rparr>"
  using
    missing_or_empty_query_rejected [of
      "\<lparr>user_query = None, chat_history = [], initial_context = Some ''Alif''\<rparr>" example_services "[]"]
    missing_or_empty_query_rejected [of
      "\<lparr>user_query = Some [], chat_history = [], initial_context = None\<rparr>" example_services "[]"]
    missing_or_empty_query_rejected [of
      "\<lparr>user_query = Some ''  '', chat_history = [], initial_context = None\<rparr>" example_services "''  ''"]
  by simp

theorem retrieval_independent_of_history_witness:
  "\<exists>r calls. \<forall>h.
     retrieve example_services (select_search_query
        (initial_context (\<lparr>user_query = Some ''what'', chat_history = [],
                           initial_context = None\<rparr>\<lparr>chat_history := h\<rparr>)) ''what'') = (r, calls)
     \<and> chat example_services
         (\<lparr>user_query = Some ''what'', chat_history = [], initial_context = None\<rparr>
          \<lparr>chat_history := h\<rparr>) =
         (case r of
            Inl e \<Rightarrow> (Inl e, calls)
          | Inr oc \<Rightarrow>
              (Inr (call_llm example_services (build_payload (retrieved_context oc) h ''what'')),
               calls @ [Post (build_payload (retrieved_context oc) h ''what'')]))"
proof -
  let ?d = "\<lparr>user_query = Some ''what'', chat_history = [], initial_context = None\<rparr>"
  have h1: "user_query ?d = Some ''what''" and h2: "''what'' \<noteq> []" by simp_all
  from retrieval_independent_of_history [OF h1 h2, of example_services] show ?thesis .
qed








lemma creative_valid:
  "user_query data = Some q \<Longrightarrow> q \<noteq> [] \<Longrightarrow>
   chat_creative sv data = (Inr (call_llm sv (creative_payload q)), [Post (creative_payload q)])"
  by (simp add: chat_creative_def)

text \<open>
  Claim C8. The parameters are fixed by the mode the handler is in. When the
  chat handler has a non-empty retrieved context it posts the factual payload,
  at temperature 0.5 with 300 tokens; when it has none (no match, or an empty
  document) it posts the guarded payload, at 0.7 with 1024 tokens; the creative
  handler posts one user turn holding the creative prompt, at 0.8 with 150
  tokens. So the temperatures increase from factual to guarded to creative and
  the creative cap is the smallest of the three.
\<close>

theorem generation_parameters:
  "(user_query data = Some q \<longrightarrow> q \<noteq> [] \<longrightarrow>
      fst (retrieve sv (select_search_query (initial_context data) q)) = Inr oc \<longrightarrow>
      retrieved_context oc = Some c \<longrightarrow> c \<noteq> [] \<longrightarrow>
      (\<exists>p. chat sv data =
             (Inr (call_llm sv p),
              snd (retrieve sv (select_search_query (initial_context data) q)) @ [Post p])
         \<and> messages p =
             [\<lparr>role = ''system'', content = GROUNDED_SYSTEM_PROMPT\<rparr>] @ chat_history data @
             [\<lparr>role = ''user'',
               content = ''Context:\<newline>---\<newline>'' @ c @ ''\<newline>---\<newline>\<newline>Question: '' @ q\<rparr>]
         \<and> temperature p = 0.5 \<and> max_tokens p = 300))
   \<and> (user_query data = Some q \<longrightarrow> q \<noteq> [] \<longrightarrow>
      fst (retrieve sv (select_search_query (initial_context data) q)) = Inr oc \<longrightarrow>
      (retrieved_context oc = None \<or> retrieved_context oc = Some []) \<longrightarrow>
      (\<exists>p. chat sv data =
             (Inr (call_llm sv p),
              snd (retrieve sv (select_search_query (initial_context data) q)) @ [Post p])
         \<and> messages p =
             [\<lparr>role = ''system'', content = FALLBACK_SYSTEM_PROMPT\<rparr>] @ chat_history data @
             [\<lparr>role = ''user'', content = q\<rparr>]
         \<and> temperature p = 0.7 \<and> max_tokens p = 1024))
   \<and> (user_query data = Some q \<longrightarrow> q \<noteq> [] \<longrightarrow>
      (\<exists>p. chat_creative sv data = (Inr (call_llm sv p), [Post p])
         \<and> messages p = [\<lparr>role = ''user'', content = creative_prompt q\<rparr>]
         \<and> temperature p = 0.8 \<and> max_tokens p = 150))
   \<and> temperature (grounded_payload ctx hist q) = 0.5
   \<and> max_tokens (grounded_payload ctx hist q) = 300
   \<and> temperature (fallback_payload hist q) = 0.7
   \<and> max_tokens (fallback_payload hist q) = 1024
   \<and> temperature (creative_payload q) = 0.8
   \<and> max_tokens (creative_payload q) = 150
   \<and> temperature (grounded_payload ctx hist q) < temperature (fallback_payload hist q)
   \<and> temperature (fallback_payload hist q) < temperature (creative_payload q)
   \<and> max_tokens (creative_payload q) < max_tokens (grounded_payload ctx hist q)
   \<and> max_tokens (creative_payload q) < max_tokens (fallback_payload hist q)"
proof -
  let ?s = "select_search_query (initial_context data) q"
  have g: "\<exists>p. chat sv data = (Inr (call_llm sv p), snd (retrieve sv ?s) @ [Post p])
         \<and> messages p =
             [\<lparr>role = ''system'', content = GROUNDED_SYSTEM_PROMPT\<rparr>] @ chat_history data @
             [\<lparr>role = ''user'',
               content = ''Context:\<newline>---\<newline>'' @ c @ ''\<newline>---\<newline>\<newline>Question: '' @ q\<rparr>]
         \<and> temperature p = 0.5 \<and> max_tokens p = 300"
    if v: "user_query data = Some q" "q \<noteq> []" and oc: "fst (retrieve sv ?s) = Inr oc"
      and c: "retrieved_context oc = Some c" "c \<noteq> []"
    by (rule exI [of _ "grounded_payload c (chat_history data) q"])
      (simp add: chat_valid [OF v] oc c build_payload_def grounded_payload_def)
  have f: "\<exists>p. chat sv data = (Inr (call_llm sv p), snd (retrieve sv ?s) @ [Post p])
         \<and> messages p =
             [\<lparr>role = ''system'', content = FALLBACK_SYSTEM_PROMPT\<rparr>] @ chat_history data @
             [\<lparr>role = ''user'', content = q\<rparr>]
         \<and> temperature p = 0.7 \<and> max_tokens p = 1024"
    if v: "user_query data = Some q" "q \<noteq> []" and oc: "fst (retrieve sv ?s) = Inr oc"
      and c: "retrieved_context oc = None \<or> retrieved_context oc = Some []"
  proof -
    from c have b: "build_payload (retrieved_context oc) (chat_history data) q =
                    fallback_payload (chat_history data) q"
      by (auto simp: build_payload_def)
    show ?thesis
      by (rule exI [of _ "fallback_payload (chat_history data) q"])
        (simp add: chat_valid [OF v] oc b, simp add: fallback_payload_def)
  qed
  have cr: "\<exists>p. chat_creative sv data = (Inr (call_llm sv p), [Post p])
         \<and> messages p = [\<lparr>role = ''user'', content = creative_prompt q\<rparr>]
         \<and> temperature p = 0.8 \<and> max_tokens p = 150"
    if v: "user_query data = Some q" "q \<noteq> []"
    by (rule exI [of _ "creative_payload q"])
      (simp add: creative_valid [OF v], simp add: creative_payload_def)
  have lit: "temperature (grounded_payload ctx hist q) = 0.5
   \<and> max_tokens (grounded_payload ctx hist q) = 300
   \<and> temperature (fallback_payload hist q) = 0.7
   \<and> max_tokens (fallback_payload hist q) = 1024
   \<and> temperature (creative_payload q) = 0.8
   \<and> max_tokens (creative_payload q) = 150
   \<and> temperature (grounded_payload ctx hist q) < temperature (fallback_payload hist q)
   \<and> temperature (fallback_payload hist q) < temperature (creative_payload q)
   \<and> max_tokens (creative_payload q) < max_tokens (grounded_payload ctx hist q)
   \<and> max_tokens (creative_payload q) < max_tokens (fallback_payload hist q)"
    by (simp add: grounded_payload_def fallback_payload_def creative_payload_def)
  from g f cr lit show ?thesis by blast
qed

theorem generation_parameters_witness:
  "(\<exists>p. chat example_services
            \<lparr>user_query = Some '' ALIF '', chat_history = [], initial_context = None\<rparr> =
          (Inr (call_llm example_services p), [Post p])
        \<and> temperature p = 0.5 \<and> max_tokens p = 300)
   \<and> (\<exists>p. chat example_services
            \<lparr>user_query = Some ''weather'', chat_history = [], initial_context = None\<rparr> =
          (Inr (call_llm example_services p), [Encode ''weather'', IndexSearch 7, Post p])
        \<and> temperature p = 0.7 \<and> max_tokens p = 1024)
   \<and> (\<exists>p. chat_creative example_services
            \<lparr>user_query = Some ''a poem'', chat_history = [], initial_context = None\<rparr> =
          (Inr (call_llm example_services p), [Post p])
        \<and> messages p = [\<lparr>role = ''user'', content = creative_prompt ''a poem''\<rparr>]
        \<and> temperature p = 0.8 \<and> max_tokens p = 150)"
proof -
  let ?a = "\<lparr>user_query = Some '' ALIF '', chat_history = [], initial_context = None\<rparr>"
  let ?b = "\<lparr>user_query = Some ''weather'', chat_history = [], initial_context = None\<rparr>"
  let ?c = "\<lparr>user_query = Some ''a poem'', chat_history = [], initial_context = None\<rparr>"
  let ?doc = "hd example_documents"
  have a1: "user_query ?a = Some '' ALIF ''" and a2: "'' ALIF '' \<noteq> []" by simp_all
  have sa: "select_search_query (initial_context ?a) '' ALIF '' = '' ALIF ''"
    by (simp add: select_search_query_def)
  have na: "strip (lower '' ALIF '') = ''alif''" by (simp add: string_eval)
  have la: "document_lookup (documents example_services) (strip (lower '' ALIF '')) = Some ?doc"
    unfolding na by (simp add: example_services_simps example_lookup_alif)
  have ra: "retrieve example_services '' ALIF '' = (Inr (ExactMatch ?doc), [])"
    using la by (rule retrieve_hit)
  have a3: "fst (retrieve example_services (select_search_query (initial_context ?a) '' ALIF ''))
            = Inr (ExactMatch ?doc)"
    unfolding sa ra by simp
  have a4: "retrieved_context (ExactMatch ?doc) = Some ?doc" by simp
  have a5: "?doc \<noteq> []" by (simp add: example_documents_def)
  have b1: "user_query ?b = Some ''weather''" and b2: "''weather'' \<noteq> []" by simp_all
  have sb: "select_search_query (initial_context ?b) ''weather'' = ''weather''"
    by (simp add: select_search_query_def)
  have lb: "document_lookup (documents example_services) (strip (lower ''weather'')) = None"
    by (simp add: example_services_simps example_lookup_miss string_eval)
  have rb: "retrieve example_services ''weather'' =
            (Inr NoMatch, [Encode ''weather'', IndexSearch 7])"
    by (simp add: retrieve_miss [OF lb] example_services_simps)
  have b3: "fst (retrieve example_services (select_search_query (initial_context ?b) ''weather''))
            = Inr NoMatch"
    unfolding sb rb by simp
  have b4: "retrieved_context NoMatch = None \<or> retrieved_context NoMatch = Some []" by simp
  have c1: "user_query ?c = Some ''a poem''" and c2: "''a poem'' \<noteq> []" by simp_all
  note ta = generation_parameters [where data = ?a and q = "'' ALIF ''" and sv = example_services
      and oc = "ExactMatch ?doc" and c = ?doc]
  note tb = generation_parameters [where data = ?b and q = "''weather''" and sv = example_services
      and oc = NoMatch]
  note tc = generation_parameters [where data = ?c and q = "''a poem''" and sv = example_services]
  from ta a1 a2 a3 a4 a5
  have ga: "\<exists>p. chat example_services ?a =
          (Inr (call_llm example_services p),
           snd (retrieve example_services (select_search_query (initial_context ?a) '' ALIF ''))
           @ [Post p])
        \<and> temperature p = 0.5 \<and> max_tokens p = 300" by blast
  from tb b1 b2 b3 b4
  have gb: "\<exists>p. chat example_services ?b =
          (Inr (call_llm example_services p),
           snd (retrieve example_services (select_search_query (initial_context ?b) ''weather''))
           @ [Post p])
        \<and> temperature p = 0.7 \<and> max_tokens p = 1024" by blast
  from tc c1 c2
  have gc: "\<exists>p. chat_creative example_services ?c = (Inr (call_llm example_services p), [Post p])
        \<and> messages p = [\<lparr>role = ''user'', content = creative_prompt ''a poem''\<rparr>]
        \<and> temperature p = 0.8 \<and> max_tokens p = 150" by blast
  from ga gb gc show ?thesis unfolding sa sb ra rb by simp
qed

lemma call_llm_cases:
  "(round_trip (post sv p) = Inl e \<longrightarrow>
      call_llm sv p = \<lparr>status = 500, body = ErrorBody (str_exn sv e)\<rparr>)
   \<and> (round_trip (post sv p) = Inr t \<longrightarrow>
      call_llm sv p = \<lparr>status = 200, body = ResponseBody t\<rparr>)"
  by (simp add: call_llm_def)











lemma split_first: "\<exists>ws. split c s = takeWhile (\<lambda>x. x \<noteq> c) s # ws"
  by (induction s) auto

lemma py_index_split: "py_index (split c s) 0 = Inr (takeWhile (\<lambda>x. x \<noteq> c) s)"
proof -
  from split_first obtain ws where "split c s = takeWhile (\<lambda>x. x \<noteq> c) s # ws" by blast
  then show ?thesis by (simp add: py_index_def)
qed

lemma letter_key_eq:
  "letter_key doc =
     Inr (lower (strip (replace ''Letter name: '' [] (takeWhile (\<lambda>x. x \<noteq> CHR ''.'') doc))))"
  by (simp add: letter_key_def py_index_split)

lemma replace_absent: "\<not> sublist old s \<Longrightarrow> replace old new s = s"
proof (induction s)
  case Nil
  then show ?case by simp
next
  case (Cons c cs)
  from Cons.prems have a: "\<not> prefix old (c # cs)" and b: "\<not> sublist old cs"
    by (auto simp: sublist_Cons_right)
  from Cons.IH [OF b] a show ?case by simp
qed

lemma replace_at_front: "old \<noteq> [] \<Longrightarrow> replace old new (old @ s) = new @ replace old new s"
  by (cases old) simp_all

lemma lower_char_space: "is_space (lower_char c) = is_space c"
proof (cases "map_of (zip upper_chars lower_chars) c")
  case None
  then show ?thesis by (simp add: lower_char_def)
next
  case (Some l)
  then have "(c, l) \<in> set (zip upper_chars lower_chars)" by (rule map_of_SomeD)
  then have c: "c \<in> set upper_chars" and l: "l \<in> set lower_chars"
    by (auto dest: set_zip_leftD set_zip_rightD)
  have "\<forall>x \<in> set upper_chars. \<not> is_space x"
    by (simp add: upper_chars_def is_space_def)
  moreover have "\<forall>x \<in> set lower_chars. \<not> is_space x"
    by (simp add: lower_chars_def is_space_def)
  ultimately show ?thesis using c l Some by (simp add: lower_char_def)
qed

lemma dropWhile_space_lower: "dropWhile is_space (lower s) = lower (dropWhile is_space s)"
  by (induction s) (simp_all add: lower_def lower_char_space)

lemma strip_lower: "strip (lower s) = lower (strip s)"
proof -
  have r: "rev (lower s) = lower (rev s)" for s by (simp add: lower_def rev_map)
  have "strip (lower s) = rev (dropWhile is_space (lower (rev (dropWhile is_space s))))"
    by (simp only: strip_def dropWhile_space_lower r)
  also have "\<dots> = lower (strip s)"
    by (simp only: strip_def dropWhile_space_lower r)
  finally show ?thesis .
qed

lemma lookup_loop_append:
  "lookup_loop (xs @ ys) m = lookup_loop ys (lookup_loop xs m)"
  by (induction xs arbitrary: m) (simp_all split: sum.splits)

lemma lookup_loop_untouched:
  "\<forall>d' \<in> set docs. startswith d' ''Letter name:'' \<longrightarrow> letter_key d' \<noteq> Inr k \<Longrightarrow>
   lookup_loop docs m k = m k"
proof (induction docs arbitrary: m)
  case Nil
  then show ?case by simp
next
  case (Cons doc docs)
  then have ih: "lookup_loop docs m' k = m' k" for m' by simp
  show ?case
  proof (cases "startswith doc ''Letter name:''")
    case False
    then show ?thesis by (simp add: ih)
  next
    case True
    with Cons.prems have "letter_key doc \<noteq> Inr k" by simp
    with True show ?thesis by (cases "letter_key doc") (simp_all add: ih)
  qed
qed

lemma document_lookup_last:
  assumes "startswith d ''Letter name:''" and "letter_key d = Inr k"
    and "\<forall>d' \<in> set later. startswith d' ''Letter name:'' \<longrightarrow> letter_key d' \<noteq> Inr k"
  shows "document_lookup (earlier @ d # later) k = Some d"
proof -
  have "document_lookup (earlier @ d # later) k =
        lookup_loop later ((lookup_loop earlier Map.empty)(k \<mapsto> d)) k"
    using assms(1,2) by (simp add: document_lookup_def lookup_loop_append)
  also have "\<dots> = ((lookup_loop earlier Map.empty)(k \<mapsto> d)) k"
    using assms(3) by (rule lookup_loop_untouched)
  finally show ?thesis by simp
qed

lemma flatten_letter:
  assumes "item ''type'' = Some ''letter''" and "flatten item = Inr (Some d)"
  shows "\<exists>n rest. item ''name'' = Some n \<and> d = ''Letter name: '' @ n @ ''. '' @ rest"
  using assms
  by (auto simp: flatten_def subscript_def letter_template_def split: option.splits)

lemma letter_doc_key:
  assumes "CHR ''.'' \<notin> set n" and "\<not> sublist ''Letter name: '' n"
  shows "letter_key (''Letter name: '' @ n @ ''. '' @ rest) = Inr (lower (strip n))"
proof -
  have "takeWhile (\<lambda>x. x \<noteq> CHR ''.'') (''Letter name: '' @ n @ ''. '' @ rest) =
        ''Letter name: '' @ n"
    using assms(1) by (auto simp: takeWhile_tail)
  moreover have "replace ''Letter name: '' [] (''Letter name: '' @ n) = n"
    using replace_at_front [of "''Letter name: ''" "[]" n] replace_absent [OF assms(2)]
    by simp
  ultimately show ?thesis by (simp only: letter_key_eq)
qed

text \<open>
  Two ways the round trip fails. Of two letter records whose names agree up to
  case, the later document takes the key: the first document's own key leads
  to the second document. And a name that contains a full stop is cut at it
  when the key is extracted, so a query with the whole name finds no key.
\<close>

theorem letter_round_trip_counterexample:
  "ingest duplicate_kb = Inr duplicate_documents
   \<and> letter_key (duplicate_documents ! 0) = Inr ''alif''
   \<and> document_lookup duplicate_documents ''alif'' = Some (duplicate_documents ! 1)
   \<and> duplicate_documents ! 0 \<noteq> duplicate_documents ! 1
   \<and> ingest dotted_kb = Inr dotted_documents
   \<and> retrieve (example_services\<lparr>documents := dotted_documents\<rparr>) ''Ha (no. 2)'' =
       (Inr NoMatch, [Encode ''Ha (no. 2)'', IndexSearch 10])"
proof -
  have a: "ingest duplicate_kb = Inr duplicate_documents"
    by (simp add: ingest_def duplicate_kb_def duplicate_documents_def flatten_def subscript_def
        get_default_def letter_template_def)
  have b: "letter_key (duplicate_documents ! 0) = Inr ''alif''"
    by (simp add: duplicate_documents_def letter_key_eq string_eval)
  have c: "document_lookup duplicate_documents ''alif'' = Some (duplicate_documents ! 1)"
    by (simp add: duplicate_documents_def document_lookup_def letter_key_eq string_eval)
  have d: "duplicate_documents ! 0 \<noteq> duplicate_documents ! 1"
    by (simp add: duplicate_documents_def)
  have e: "ingest dotted_kb = Inr dotted_documents"
    by (simp add: ingest_def dotted_kb_def dotted_documents_def flatten_def subscript_def
        get_default_def letter_template_def)
  have n: "strip (lower ''Ha (no. 2)'') = ''ha (no. 2)''" by (simp add: string_eval)
  have l: "document_lookup (documents (example_services\<lparr>documents := dotted_documents\<rparr>))
             (strip (lower ''Ha (no. 2)'')) = None"
    unfolding n
    by (simp add: dotted_documents_def document_lookup_def letter_key_eq string_eval)
  have f: "retrieve (example_services\<lparr>documents := dotted_documents\<rparr>) ''Ha (no. 2)'' =
       (Inr NoMatch, [Encode ''Ha (no. 2)'', IndexSearch 10])"
    by (simp add: retrieve_miss [OF l] example_services_simps)
  from a b c d e f show ?thesis by simp
qed

text \<open>
  Claim C6, as the code has it. Let \<open>d\<close> be the document flattened from a letter
  record, at some position of the loaded documents, such that no later letter
  document has the same extracted key. Then the key extracted from \<open>d\<close> by line
  50 is looked up to \<open>d\<close> itself. If moreover the record's name holds no full
  stop and no occurrence of \<open>Letter name: \<close>, that key is the name, stripped and
  lower-cased, and a request without context hint whose non-empty query is the
  name in any casing and padding takes the exact-match branch with \<open>d\<close>.
\<close>

theorem letter_round_trip:
  assumes "item ''type'' = Some ''letter''" and "flatten item = Inr (Some d)"
    and "documents sv = earlier @ d # later"
    and "\<forall>d' \<in> set later. startswith d' ''Letter name:'' \<longrightarrow> letter_key d' \<noteq> letter_key d"
  shows "(\<exists>k. letter_key d = Inr k \<and> document_lookup (documents sv) k = Some d)
       \<and> (item ''name'' = Some n \<longrightarrow> CHR ''.'' \<notin> set n \<longrightarrow> \<not> sublist ''Letter name: '' n \<longrightarrow>
            letter_key d = Inr (lower (strip n))
          \<and> (user_query data = Some q \<longrightarrow> q \<noteq> [] \<longrightarrow>
               (initial_context data = None \<or> initial_context data = Some []) \<longrightarrow>
               lower (strip q) = lower (strip n) \<longrightarrow>
                 retrieve sv (select_search_query (initial_context data) q) =
                   (Inr (ExactMatch d), [])
               \<and> chat sv data =
                   (Inr (call_llm sv (grounded_payload d (chat_history data) q)),
                    [Post (grounded_payload d (chat_history data) q)])))"
proof -
  from flatten_letter [OF assms(1,2)] obtain n' rest where
    n': "item ''name'' = Some n'" and d: "d = ''Letter name: '' @ n' @ ''. '' @ rest" by blast
  have sw: "startswith d ''Letter name:''" by (simp add: d startswith_def)
  obtain k where k: "letter_key d = Inr k" by (simp add: letter_key_eq)
  have look: "document_lookup (documents sv) k = Some d"
    unfolding assms(3) using sw k assms(4) by (intro document_lookup_last) (simp_all add: k)
  have second: "letter_key d = Inr (lower (strip n))
          \<and> (user_query data = Some q \<longrightarrow> q \<noteq> [] \<longrightarrow>
               (initial_context data = None \<or> initial_context data = Some []) \<longrightarrow>
               lower (strip q) = lower (strip n) \<longrightarrow>
                 retrieve sv (select_search_query (initial_context data) q) =
                   (Inr (ExactMatch d), [])
               \<and> chat sv data =
                   (Inr (call_llm sv (grounded_payload d (chat_history data) q)),
                    [Post (grounded_payload d (chat_history data) q)]))"
    if nm: "item ''name'' = Some n" and dot: "CHR ''.'' \<notin> set n"
      and sub: "\<not> sublist ''Letter name: '' n"
  proof (intro conjI impI)
    from nm n' have "n' = n" by simp
    with d letter_doc_key [OF dot sub] show key: "letter_key d = Inr (lower (strip n))" by simp
    assume q: "user_query data = Some q" "q \<noteq> []"
      and ctx: "initial_context data = None \<or> initial_context data = Some []"
      and same: "lower (strip q) = lower (strip n)"
    from ctx have s: "select_search_query (initial_context data) q = q"
      by (auto simp: select_search_query_def)
    from key k have "k = lower (strip n)" by simp
    with look same have hit: "document_lookup (documents sv) (strip (lower q)) = Some d"
      by (simp add: strip_lower)
    then show r: "retrieve sv (select_search_query (initial_context data) q) =
                   (Inr (ExactMatch d), [])"
      unfolding s by (rule retrieve_hit)
    have "d \<noteq> []" by (simp add: d)
    then show "chat sv data =
                   (Inr (call_llm sv (grounded_payload d (chat_history data) q)),
                    [Post (grounded_payload d (chat_history data) q)])"
      by (simp add: chat_valid [OF q] r build_payload_def)
  qed
  from k look second show ?thesis by blast
qed

theorem letter_round_trip_witness:
  "document_lookup example_documents ''alif'' = Some (hd example_documents)
   \<and> letter_key (hd example_documents) = Inr ''alif''
   \<and> retrieve example_services '' ALIF '' = (Inr (ExactMatch (hd example_documents)), [])"
proof -
  let ?item = "[''type'' \<mapsto> ''letter'', ''name'' \<mapsto> ''Alif'', ''info'' \<mapsto> ''First.'']"
  let ?data = "\<lparr>user_query = Some '' ALIF '', chat_history = [], initial_context = None\<rparr>"
  let ?d = "hd example_documents" and ?later = "tl example_documents"
  have h1: "?item ''type'' = Some ''letter''" by simp
  have h2: "flatten ?item = Inr (Some ?d)"
    by (simp add: flatten_def subscript_def get_default_def letter_template_def
        example_documents_def)
  have h3: "documents example_services = [] @ ?d # ?later"
    by (simp add: example_services_simps example_documents_def)
  have h4: "\<forall>d' \<in> set ?later. startswith d' ''Letter name:'' \<longrightarrow> letter_key d' \<noteq> letter_key ?d"
    by (simp add: example_documents_def startswith_def)
  have n1: "?item ''name'' = Some ''Alif''" by simp
  have n2: "CHR ''.'' \<notin> set ''Alif''" by simp
  have n3: "\<not> sublist ''Letter name: '' ''Alif''" by (simp add: sublist_Cons_right)
  have q1: "user_query ?data = Some '' ALIF ''" and q2: "'' ALIF '' \<noteq> []"
    and q3: "initial_context ?data = None \<or> initial_context ?data = Some []" by simp_all
  have q4: "lower (strip '' ALIF '') = lower (strip ''Alif'')" by (simp add: string_eval)
  have e: "lower (strip ''Alif'') = ''alif''" by (simp add: string_eval)
  have s: "select_search_query (initial_context ?data) '' ALIF '' = '' ALIF ''"
    by (simp add: select_search_query_def)
  note t = letter_round_trip [OF h1 h2 h3 h4, of "''Alif''" ?data "'' ALIF ''"]
  from t n1 n2 n3 have k: "letter_key ?d = Inr (lower (strip ''Alif''))" by blast
  from t k have l: "document_lookup (documents example_services) (lower (strip ''Alif'')) = Some ?d"
    by auto
  from t n1 n2 n3 q1 q2 q3 q4
  have r: "retrieve example_services (select_search_query (initial_context ?data) '' ALIF '') =
           (Inr (ExactMatch ?d), [])" by blast
  from k l r show ?thesis unfolding e s by (simp add: example_services_simps)
qed

end
